theory Spec2Isabelle
  imports Main "HOL-Library.Word"
begin

section \<open>The vSphere provisioner: create.go\<close>

text \<open>
  A shallow embedding of \<^verbatim>\<open>pkg/cloud/vsphere/provisioner/govmomi/create.go\<close>.
  Every Go function that returns \<^verbatim>\<open>error\<close> becomes a function returning
  \<open>error option\<close> (\<open>None\<close> is \<^verbatim>\<open>nil\<close>) together with the world it leaves behind.
  The world holds what the reconciler changes outside the process: the machine record as
  last accepted by the API server, the events handed to the recorder, and the clone
  requests handed to the platform. Answers of the platform and of the API server are
  fields of the session and of the provisioner, so every theorem holds for any answers.
\<close>

subsection \<open>Errors\<close>

text \<open>
  \<open>ErrorString\<close> is \<^verbatim>\<open>errors.New\<close> and \<^verbatim>\<open>fmt.Errorf\<close> over strings; \<open>Errorf p e\<close> is
  \<^verbatim>\<open>fmt.Errorf(p + "%s", e)\<close>; \<open>RequeueAfterError d\<close> carries a duration in nanoseconds;
  \<open>NotFoundError\<close> is the finder's \<^verbatim>\<open>*find.NotFoundError\<close>; \<open>Fault\<close> is a fault answered by
  the platform (such as a managed object that is not found) and \<open>TransportError\<close> a
  failure to reach it; \<open>Panic\<close> is a Go run-time panic.
\<close>

datatype error =
    ErrorString string
  | Errorf string error
  | RequeueAfterError int
  | NotFoundError string
  | Fault string
  | TransportError string
  | Panic string

definition Second :: int where
  "Second = 1000000000"

fun hardError :: "error option \<Rightarrow> bool" where
  "hardError None = False"
| "hardError (Some (RequeueAfterError d)) = False"
| "hardError (Some e) = True"

subsection \<open>The machine record\<close>

record DiskSpec =
  DiskLabel :: string
  DiskSizeGB :: "64 word"

record NetworkSpec =
  NetworkName :: string

record VsphereMachineSpec =
  Datacenter :: string
  Datastore :: string
  ResourcePool :: string
  VMFolder :: string
  Networks :: "NetworkSpec list"
  NumCPUs :: "64 word"
  MemoryMB :: "64 word"
  VMTemplate :: string
  Disks :: "DiskSpec list"
  VsphereCloudInit :: bool

record VsphereMachineProviderConfig =
  Kind :: string
  APIVersion :: string
  MachineRef :: string
  MachineSpec :: VsphereMachineSpec

record VsphereMachineProviderStatus =
  TaskRef :: string
  LastUpdated :: string

text \<open>
  The provider spec and the provider status travel as raw JSON inside the machine. The
  record keeps them decoded: \<open>Inl e\<close> when decoding fails with \<open>e\<close>, and for the status
  \<open>Inr None\<close> when the machine carries no provider status at all.
\<close>

record Machine =
  Name :: string
  UID :: string
  ProviderSpec :: "error + VsphereMachineProviderConfig"
  ProviderStatus :: "error + VsphereMachineProviderStatus option"

record Cluster =
  ClusterName :: string

definition GetMachineProviderSpec ::
  "error + VsphereMachineProviderConfig \<Rightarrow> error + VsphereMachineProviderConfig" where
  "GetMachineProviderSpec raw = raw"

definition GetMachineProviderStatus ::
  "Machine \<Rightarrow> error + VsphereMachineProviderStatus option" where
  "GetMachineProviderStatus machine = ProviderStatus machine"

text \<open>
  Modelled from the spec: \<^verbatim>\<open>vsphereutils.GetActiveTasks\<close> is not among the sources. It
  yields the Task Reference stored in the machine's status, and the empty string when
  none is stored.
\<close>

definition GetActiveTasks :: "Machine \<Rightarrow> string" where
  "GetActiveTasks machine =
     (case GetMachineProviderStatus machine of
        Inl err \<Rightarrow> ''''
      | Inr None \<Rightarrow> ''''
      | Inr (Some ps) \<Rightarrow> TaskRef ps)"

subsection \<open>Platform objects\<close>

datatype AnyType =
    NilValue
  | ManagedObjectReference string
  | OtherValue string

record TaskInfo =
  State :: string
  DescriptionId :: string
  Result :: AnyType
  EntityName :: string

definition TaskInfoStateQueued :: string where "TaskInfoStateQueued = ''queued''"
definition TaskInfoStateRunning :: string where "TaskInfoStateRunning = ''running''"
definition TaskInfoStateSuccess :: string where "TaskInfoStateSuccess = ''success''"
definition TaskInfoStateError :: string where "TaskInfoStateError = ''error''"

text \<open>
  A device of the template. A disk has a key, its description label (\<open>None\<close> when the
  device carries no \<^verbatim>\<open>DeviceInfo\<close>) and its capacity in bytes; a network adapter has a key
  and a backing. \<open>VirtualVmxnet3\<close> embeds \<open>VirtualEthernetCard\<close>, as every adapter type does.
\<close>

datatype VirtualDevice =
    VirtualDisk "32 word" "string option" "64 word"
  | VirtualEthernetCard "32 word" string
  | VirtualVmxnet3 "32 word" string
  | VirtualController "32 word"

datatype VirtualDeviceConfigSpecOperation =
    VirtualDeviceConfigSpecOperationAdd
  | VirtualDeviceConfigSpecOperationRemove
  | VirtualDeviceConfigSpecOperationEdit

record VirtualDeviceConfigSpec =
  Operation :: VirtualDeviceConfigSpecOperation
  Device :: VirtualDevice

record VAppPropertyInfo =
  PropKey :: "32 word"
  PropId :: string
  DefaultValue :: string

record VAppPropertySpec =
  InfoKey :: "32 word"
  InfoId :: string
  InfoValue :: string

record VirtualMachineConfigInfo =
  VAppConfig :: "VAppPropertyInfo list option"
  HardwareDevice :: "VirtualDevice list"

record OptionValue =
  OptKey :: string
  OptValue :: string

text \<open>The clone specification, its nested structs flattened into one record.\<close>

record VirtualMachineCloneSpec =
  Location_Datastore :: string
  Location_Pool :: string
  Location_DiskMoveType :: string
  Config_InstanceUuid :: string
  Config_DiskUuidEnabled :: bool
  Config_NumCPUs :: "32 word"
  Config_MemoryMB :: "64 word"
  Config_Annotation :: string
  Config_ExtraConfig :: "OptionValue list"
  Config_VAppConfig :: "VAppPropertySpec list option"
  Config_DeviceChange :: "VirtualDeviceConfigSpec list"
  PowerOn :: bool

record CloneRequest =
  CloneSource :: string
  CloneFolder :: string
  CloneName :: string
  CloneSpec :: VirtualMachineCloneSpec

subsection \<open>Collaborators\<close>

text \<open>
  The session: what the platform answers to each query of this file. \<open>FindByUuid\<close> takes
  the datacenter scope (\<open>None\<close> for the whole inventory) and the instance UUID.
\<close>

record SessionContext =
  UserSession :: "error option"
  RetrieveOne :: "string \<Rightarrow> error + TaskInfo"
  FindByUuid :: "string option \<Rightarrow> string \<Rightarrow> error + string option"
  DatacenterOrDefault :: "string \<Rightarrow> error + string"
  FinderVirtualMachine :: "string \<Rightarrow> error + string"
  HostSystem :: "string \<Rightarrow> error + string"
  PropertiesHost :: "string \<Rightarrow> error + string"
  FolderOrDefault :: "string \<Rightarrow> error + string"
  DatastoreOrDefault :: "string \<Rightarrow> error + string"
  PropertiesVM :: "string \<Rightarrow> error + VirtualMachineConfigInfo option"
  ResourcePoolOrDefault :: "string \<Rightarrow> error + string"
  HostResourcePool :: "string \<Rightarrow> error + string"
  ResourcePoolCreate :: "string \<Rightarrow> string \<Rightarrow> error + string"
  FinderNetwork :: "string \<Rightarrow> error + string"
  EthernetCardBackingInfo :: "string \<Rightarrow> error + string"
  Clone :: "CloneRequest \<Rightarrow> error + string"

text \<open>
  The machines client: \<open>None\<close> when the server accepts the object, the error otherwise.
\<close>

record MachineInterface =
  Update :: "Machine \<Rightarrow> error option"
  UpdateStatus :: "Machine \<Rightarrow> error option"

text \<open>
  The provisioner. \<open>clusterV1alpha1 = None\<close> and \<open>eventRecorder = False\<close> are the nil
  client and the nil recorder. The remaining fields are the collaborators that this file
  calls and does not define: session set-up, the bootstrap payloads (only their result,
  an error or an opaque payload, is used here), the SSH key, the UUID syntax check, the
  scheme's group version, the text of the nil-cluster error and the clock.
\<close>

record Provisioner =
  clusterV1alpha1 :: "MachineInterface option"
  eventRecorder :: bool
  sessionFromProviderConfig :: "Cluster \<Rightarrow> Machine \<Rightarrow> error + SessionContext"
  getCloudInitUserData :: "Cluster \<Rightarrow> Machine \<Rightarrow> string \<Rightarrow> error + string"
  getCloudInitMetaData :: "Cluster \<Rightarrow> Machine \<Rightarrow> error + string"
  GetSSHPublicKey :: "Cluster \<Rightarrow> error + string"
  IsValidUUID :: "string \<Rightarrow> bool"
  SchemeGroupVersion :: string
  ClusterIsNullErr :: string
  timeNow :: string

record Event =
  eventtype :: string
  reason :: string
  message :: string

record World =
  stored :: Machine
  events :: "Event list"
  clones :: "CloneRequest list"

definition Eventf :: "string \<Rightarrow> string \<Rightarrow> string \<Rightarrow> World \<Rightarrow> World" where
  "Eventf ty rsn msg w =
     w\<lparr>events := events w @ [\<lparr>eventtype = ty, reason = rsn, message = msg\<rparr>]\<rparr>"

definition EventTypeNormal :: string where "EventTypeNormal = ''Normal''"

subsection \<open>Status projection: updateVMReference and setTaskRef\<close>

definition updateVMReference ::
  "Provisioner \<Rightarrow> Machine \<Rightarrow> string \<Rightarrow> World \<Rightarrow> (Machine \<times> error option) \<times> World" where
  "updateVMReference vc machine vmref w =
     (case GetMachineProviderSpec (ProviderSpec machine) of
        Inl err \<Rightarrow> ((machine, Some err), w)
      | Inr providerSpec \<Rightarrow>
          (let providerSpec' = providerSpec
                 \<lparr>MachineRef := vmref,
                  Kind := ''VsphereMachineProviderConfig'',
                  APIVersion := SchemeGroupVersion vc\<rparr>;
               newMachine = machine\<lparr>ProviderSpec := Inr providerSpec'\<rparr>
           in case clusterV1alpha1 vc of
                None \<Rightarrow> ((machine, Some (Panic ''nil pointer dereference'')), w)
              | Some client \<Rightarrow>
                  (case Update client newMachine of
                     Some err \<Rightarrow> ((machine, Some err), w)
                   | None \<Rightarrow> ((newMachine, None), w\<lparr>stored := newMachine\<rparr>))))"

definition setTaskRef ::
  "Provisioner \<Rightarrow> Machine \<Rightarrow> string \<Rightarrow> World \<Rightarrow> error option \<times> World" where
  "setTaskRef pv machine taskref w =
     (case GetMachineProviderStatus machine of
        Inl err \<Rightarrow> (Some err, w)
      | Inr oldProviderStatus \<Rightarrow>
          (if oldProviderStatus \<noteq> None \<and> TaskRef (the oldProviderStatus) = taskref
           then (None, w)
           else
             (let base = (case oldProviderStatus of
                            None \<Rightarrow> \<lparr>TaskRef = '''', LastUpdated = ''''\<rparr>
                          | Some old \<Rightarrow> old);
                  newProviderStatus = base\<lparr>TaskRef := taskref, LastUpdated := timeNow pv\<rparr>;
                  newMachine = machine\<lparr>ProviderStatus := Inr (Some newProviderStatus)\<rparr>
              in case clusterV1alpha1 pv of
                   None \<Rightarrow> (None, w)
                 | Some client \<Rightarrow>
                     (case UpdateStatus client newMachine of
                        Some err \<Rightarrow> (Some err, w)
                      | None \<Rightarrow> (None, w\<lparr>stored := newMachine\<rparr>)))))"

subsection \<open>Identity resolution\<close>

definition findVMByInstanceUUID :: "SessionContext \<Rightarrow> Machine \<Rightarrow> error + string" where
  "findVMByInstanceUUID s machine =
     (case FindByUuid s None (UID machine) of
        Inl err \<Rightarrow>
          Inl (Errorf ''error quering virtual machine or template using FindByUuid: '' err)
      | Inr (Some vmRef) \<Rightarrow> Inr vmRef
      | Inr None \<Rightarrow> Inr '''')"

subsection \<open>The task tracker: verifyAndUpdateTask\<close>

definition verifyAndUpdateTask ::
  "Provisioner \<Rightarrow> SessionContext \<Rightarrow> Machine \<Rightarrow> string \<Rightarrow> World \<Rightarrow> error option \<times> World" where
  "verifyAndUpdateTask pv s machine taskmoref w =
     (case RetrieveOne s taskmoref of
        Inl err \<Rightarrow> setTaskRef pv machine '''' w
      | Inr info \<Rightarrow>
          (if State info = TaskInfoStateQueued \<or> State info = TaskInfoStateRunning then
             (Some (RequeueAfterError (Second * 5)), w)
           else if State info = TaskInfoStateSuccess then
             (if DescriptionId info = ''VirtualMachine.clone'' then
                (case Result info of
                   ManagedObjectReference vmref \<Rightarrow>
                     (if \<not> eventRecorder pv then (Some (Panic ''nil pointer dereference''), w)
                      else
                        (let w1 = Eventf EventTypeNormal ''Created''
                                   (''Created Machine '' @ Name machine @ ''('' @ vmref @ '')'') w
                         in case updateVMReference pv machine vmref w1 of
                              ((updatedmachine, Some err), w2) \<Rightarrow> (Some err, w2)
                            | ((updatedmachine, None), w2) \<Rightarrow>
                                setTaskRef pv updatedmachine '''' w2))
                 | NilValue \<Rightarrow> (Some (Panic ''interface conversion''), w)
                 | OtherValue v \<Rightarrow> (Some (Panic ''interface conversion''), w))
              else if DescriptionId info = ''VirtualMachine.reconfigure'' then
                (if \<not> eventRecorder pv then (Some (Panic ''nil pointer dereference''), w)
                 else setTaskRef pv machine ''''
                        (Eventf EventTypeNormal ''Reconfigured''
                           (''Reconfigured Machine '' @ EntityName info) w))
              else setTaskRef pv machine '''' w)
           else if State info = TaskInfoStateError then
             (if DescriptionId info = ''VirtualMachine.clone'' then
                (if \<not> eventRecorder pv then (Some (Panic ''nil pointer dereference''), w)
                 else setTaskRef pv machine ''''
                        (Eventf EventTypeNormal ''Failed''
                           (''Creation failed for Machine '' @ Name machine) w))
              else (None, w))
           else
             (Some (ErrorString
                (''Unknown state '' @ taskmoref @ '' for task '' @ State info @ '' detected'')), w)))"

subsection \<open>Building the clone specification: cloneVirtualMachine\<close>

text \<open>
  Modelled from the spec: \<^verbatim>\<open>vsphereutils.GiBToByte\<close> is not among the sources. A directive
  of 100 yields a capacity of exactly 100 GiB, so the conversion is the product with
  \<open>2 ^ 30\<close>, here on 64-bit integers as the comparison with \<^verbatim>\<open>CapacityInBytes\<close> requires.
\<close>

definition GiBToByte :: "64 word \<Rightarrow> 64 word" where
  "GiBToByte gib = gib * 2 ^ 30"

text \<open>Lines 154 to 177: the template, by instance UUID first when it reads as one.\<close>

definition resolveTemplate ::
  "Provisioner \<Rightarrow> SessionContext \<Rightarrow> string \<Rightarrow> string \<Rightarrow> error + string" where
  "resolveTemplate pv s dc vmTemplate =
     (case (if IsValidUUID pv vmTemplate
            then (case FindByUuid s (Some dc) vmTemplate of
                    Inl err \<Rightarrow>
                      Inl (Errorf
                        ''error querying virtual machine or template using FindByUuid: '' err)
                  | Inr templateref \<Rightarrow> Inr templateref)
            else Inr None) of
        Inl err \<Rightarrow> Inl err
      | Inr (Some src) \<Rightarrow> Inr src
      | Inr None \<Rightarrow> FinderVirtualMachine s vmTemplate)"

text \<open>
  Lines 248 to 279: the resource pool. A finder error other than \<open>NotFoundError\<close> is not
  checked, and the nil pool is dereferenced.
\<close>

definition resolvePool ::
  "SessionContext \<Rightarrow> string \<Rightarrow> VsphereMachineSpec \<Rightarrow> error + string" where
  "resolvePool s host ms =
     (if length (ResourcePool ms) > 0 then
        (case ResourcePoolOrDefault s (ResourcePool ms) of
           Inr pool \<Rightarrow> Inr pool
         | Inl (NotFoundError x) \<Rightarrow>
             (case HostResourcePool s host of
                Inl errRoot \<Rightarrow> Inl errRoot
              | Inr poolRoot \<Rightarrow>
                  (case ResourcePoolCreate s poolRoot (ResourcePool ms) of
                     Inl err \<Rightarrow> Inl err
                   | Inr pool \<Rightarrow> Inr pool))
         | Inl err \<Rightarrow> Inl (Panic ''nil pointer dereference''))
      else
        (case HostResourcePool s host of
           Inl err \<Rightarrow> Inl err
         | Inr pool \<Rightarrow> Inr pool))"

text \<open>Lines 301 to 329: the vApp properties carried over from the template.\<close>

fun vAppProperties ::
  "Provisioner \<Rightarrow> Cluster \<Rightarrow> Machine \<Rightarrow> string \<Rightarrow> VAppPropertyInfo list \<Rightarrow>
   VAppPropertySpec list \<Rightarrow> error + VAppPropertySpec list" where
  "vAppProperties pv cluster machine userData [] props = Inr props"
| "vAppProperties pv cluster machine userData (p # rest) props =
     (let defaultValue = (if DefaultValue p \<noteq> '''' then DefaultValue p else '' '');
          v1 = (if PropId p = ''user-data'' then userData else defaultValue)
      in case (if PropId p = ''public-keys''
               then GetSSHPublicKey pv cluster
               else Inr v1) of
           Inl err \<Rightarrow> Inl err
         | Inr v2 \<Rightarrow>
             (let v3 = (if PropId p = ''hostname'' then Name machine else v2)
              in vAppProperties pv cluster machine userData rest
                   (props @ [\<lparr>InfoKey = PropKey p, InfoId = PropId p, InfoValue = v3\<rparr>])))"

text \<open>Lines 282 to 333: one of the two ways to hand the payloads to the guest.\<close>

definition guestCustomization ::
  "Provisioner \<Rightarrow> Cluster \<Rightarrow> Machine \<Rightarrow> VsphereMachineSpec \<Rightarrow> VirtualMachineConfigInfo \<Rightarrow>
   string \<Rightarrow> string \<Rightarrow> error + (OptionValue list \<times> VAppPropertySpec list option)" where
  "guestCustomization pv cluster machine ms vmProps userData metaData =
     (if VsphereCloudInit ms then
        Inr ([\<lparr>OptKey = ''guestinfo.metadata'', OptValue = metaData\<rparr>,
              \<lparr>OptKey = ''guestinfo.metadata.encoding'', OptValue = ''base64''\<rparr>,
              \<lparr>OptKey = ''guestinfo.userdata'', OptValue = userData\<rparr>,
              \<lparr>OptKey = ''guestinfo.userdata.encoding'', OptValue = ''base64''\<rparr>], None)
      else
        (case VAppConfig vmProps of
           None \<Rightarrow> Inl (ErrorString
             ''this source VM lacks a vApp configuration and cannot have vApp properties set on it'')
         | Some allProperties \<Rightarrow>
             (case vAppProperties pv cluster machine userData allProperties [] of
                Inl err \<Rightarrow> Inl err
              | Inr props \<Rightarrow> Inr ([], Some props))))"

text \<open>
  Lines 141 to 333: everything the clone specification holds before its device changes.
  The result keeps what the rest of the function reads: the decoded machine spec, the
  source template, the target folder, the specification so far and the template's devices.
\<close>

record CloneBase =
  base_machineSpec :: VsphereMachineSpec
  base_src :: string
  base_vmFolder :: string
  base_spec :: VirtualMachineCloneSpec
  base_devices :: "VirtualDevice list"

definition cloneSpecBase ::
  "Provisioner \<Rightarrow> SessionContext \<Rightarrow> Cluster \<Rightarrow> Machine \<Rightarrow> error + CloneBase" where
  "cloneSpecBase pv s cluster machine =
     (case GetMachineProviderSpec (ProviderSpec machine) of Inl err \<Rightarrow> Inl err
      | Inr machineConfig \<Rightarrow>
     (let ms = MachineSpec machineConfig in
      case DatacenterOrDefault s (Datacenter ms) of Inl err \<Rightarrow> Inl err
      | Inr dc \<Rightarrow>
     (case resolveTemplate pv s dc (VMTemplate ms) of Inl err \<Rightarrow> Inl err
      | Inr src \<Rightarrow>
     (case HostSystem s src of Inl err \<Rightarrow> Inl err
      | Inr host \<Rightarrow>
     (case PropertiesHost s host of
        Inl err \<Rightarrow> Inl (Errorf ''error fetching host properties: '' err)
      | Inr hostName \<Rightarrow>
     (let resourcePoolPath =
            (if length (ResourcePool ms) = 0
             then ''/'' @ Datacenter ms @ ''/host/'' @ hostName @ ''/Resource''
             else '''')
      in
      case getCloudInitUserData pv cluster machine resourcePoolPath of Inl err \<Rightarrow> Inl err
      | Inr userData \<Rightarrow>
     (case getCloudInitMetaData pv cluster machine of Inl err \<Rightarrow> Inl err
      | Inr metaData \<Rightarrow>
     (case FolderOrDefault s (VMFolder ms) of Inl err \<Rightarrow> Inl err
      | Inr vmFolder \<Rightarrow>
     (case DatastoreOrDefault s (Datastore ms) of Inl err \<Rightarrow> Inl err
      | Inr ds \<Rightarrow>
     (case PropertiesVM s src of
        Inl err \<Rightarrow> Inl (Errorf ''error fetching vm/template properties: '' err)
      | Inr vmPropsConfig \<Rightarrow>
     (case resolvePool s host ms of Inl err \<Rightarrow> Inl err
      | Inr pool \<Rightarrow>
     (case vmPropsConfig of None \<Rightarrow> Inl (Panic ''nil pointer dereference'')
      | Some vmProps \<Rightarrow>
     (case guestCustomization pv cluster machine ms vmProps userData metaData of
        Inl err \<Rightarrow> Inl err
      | Inr (extraconfigs, vapp) \<Rightarrow>
          Inr \<lparr>base_machineSpec = ms,
               base_src = src,
               base_vmFolder = vmFolder,
               base_spec =
                 \<lparr>Location_Datastore = ds,
                  Location_Pool = pool,
                  Location_DiskMoveType = ''moveAllDiskBackingsAndConsolidate'',
                  Config_InstanceUuid = UID machine,
                  Config_DiskUuidEnabled = True,
                  Config_NumCPUs = (if 0 < sint (NumCPUs ms) then ucast (NumCPUs ms) else 0),
                  Config_MemoryMB = (if 0 < sint (MemoryMB ms) then MemoryMB ms else 0),
                  Config_Annotation =
                    ''Virtual Machine is part of the cluster '' @ ClusterName cluster
                      @ '' managed by cluster-api'',
                  Config_ExtraConfig = extraconfigs,
                  Config_VAppConfig = vapp,
                  Config_DeviceChange = [],
                  PowerOn = True\<rparr>,
               base_devices = HardwareDevice vmProps\<rparr>)))))))))))))"

text \<open>
  \<^verbatim>\<open>SelectByType\<close> keeps the devices of a type and of the types that embed it;
  \<^verbatim>\<open>GetVirtualEthernetCard\<close> yields the embedded adapter.
\<close>

fun isVirtualDisk :: "VirtualDevice \<Rightarrow> bool" where
  "isVirtualDisk (VirtualDisk key info cap) = True"
| "isVirtualDisk dev = False"

fun isVirtualEthernetCard :: "VirtualDevice \<Rightarrow> bool" where
  "isVirtualEthernetCard (VirtualEthernetCard key backing) = True"
| "isVirtualEthernetCard (VirtualVmxnet3 key backing) = True"
| "isVirtualEthernetCard dev = False"

fun GetVirtualEthernetCard :: "VirtualDevice \<Rightarrow> VirtualDevice option" where
  "GetVirtualEthernetCard (VirtualEthernetCard key backing) =
     Some (VirtualEthernetCard key backing)"
| "GetVirtualEthernetCard (VirtualVmxnet3 key backing) = Some (VirtualEthernetCard key backing)"
| "GetVirtualEthernetCard dev = None"

text \<open>Lines 348 to 354: the directives as a map from label to size; a later entry wins.\<close>

definition diskMap :: "DiskSpec list \<Rightarrow> (string \<rightharpoonup> 64 word)" where
  "diskMap diskSpecs = fold (\<lambda>s m. m(DiskLabel s \<mapsto> DiskSizeGB s)) diskSpecs Map.empty"

text \<open>Lines 356 to 370: the loop over the template's disks.\<close>

fun resizeDisks ::
  "(string \<rightharpoonup> 64 word) \<Rightarrow> VirtualDevice list \<Rightarrow> bool \<Rightarrow> VirtualDeviceConfigSpec list \<Rightarrow>
   error + (bool \<times> VirtualDeviceConfigSpec list)" where
  "resizeDisks dm [] diskChange deviceSpecs = Inr (diskChange, deviceSpecs)"
| "resizeDisks dm (VirtualDisk key info cap # rest) diskChange deviceSpecs =
     (case info of
        None \<Rightarrow> Inl (Panic ''nil pointer dereference'')
      | Some label \<Rightarrow>
          (case dm label of
             Some newSize \<Rightarrow>
               (if sint (GiBToByte newSize) < sint cap then
                  Inl (ErrorString ''[FATAL] Disk size provided should be more than actual disk size of the template. Please correct the machineSpec to proceed'')
                else resizeDisks dm rest True
                       (deviceSpecs @
                          [\<lparr>Operation = VirtualDeviceConfigSpecOperationEdit,
                            Device = VirtualDisk key info (GiBToByte newSize)\<rparr>]))
           | None \<Rightarrow> resizeDisks dm rest diskChange deviceSpecs))"
| "resizeDisks dm (dev # rest) diskChange deviceSpecs = Inl (Panic ''interface conversion'')"

text \<open>Lines 378 to 384: a removal for every adapter of the template.\<close>

fun removeNics ::
  "VirtualDevice list \<Rightarrow> VirtualDeviceConfigSpec list \<Rightarrow> error + VirtualDeviceConfigSpec list" where
  "removeNics [] deviceSpecs = Inr deviceSpecs"
| "removeNics (dev # rest) deviceSpecs =
     (case GetVirtualEthernetCard dev of
        None \<Rightarrow> Inl (Panic ''interface conversion'')
      | Some nic \<Rightarrow>
          removeNics rest
            (deviceSpecs @
               [\<lparr>Operation = VirtualDeviceConfigSpecOperationRemove, Device = nic\<rparr>]))"

text \<open>Lines 386 to 403: an added adapter for every configured network.\<close>

fun addNics ::
  "SessionContext \<Rightarrow> NetworkSpec list \<Rightarrow> 32 word \<Rightarrow> VirtualDeviceConfigSpec list \<Rightarrow>
   error + VirtualDeviceConfigSpec list" where
  "addNics s [] nicid deviceSpecs = Inr deviceSpecs"
| "addNics s (network # rest) nicid deviceSpecs =
     (case FinderNetwork s (NetworkName network) of
        Inl err \<Rightarrow> Inl err
      | Inr netRef \<Rightarrow>
          (case EthernetCardBackingInfo s netRef of
             Inl err \<Rightarrow> Inl err
           | Inr backing \<Rightarrow>
               addNics s rest (nicid - 1)
                 (deviceSpecs @
                    [\<lparr>Operation = VirtualDeviceConfigSpecOperationAdd,
                      Device = VirtualVmxnet3 nicid backing\<rparr>])))"

text \<open>Lines 335 to 404: the device changes of the specification.\<close>

definition deviceChanges ::
  "SessionContext \<Rightarrow> VsphereMachineSpec \<Rightarrow> VirtualDevice list \<Rightarrow>
   error + VirtualDeviceConfigSpec list" where
  "deviceChanges s ms l =
     (case resizeDisks (diskMap (Disks ms)) (filter isVirtualDisk l) False [] of
        Inl err \<Rightarrow> Inl err
      | Inr (diskChange, deviceSpecs) \<Rightarrow>
          (if \<not> diskChange \<and> length (Disks ms) > 0 then
             Inl (ErrorString
               (''[FATAL] None of the disks specified in the MachineSpec matched with the disks on the template ''
                  @ VMTemplate ms))
           else
             (case removeNics (filter isVirtualEthernetCard l) deviceSpecs of
                Inl err \<Rightarrow> Inl err
              | Inr deviceSpecs' \<Rightarrow> addNics s (Networks ms) (- 100) deviceSpecs')))"

definition cloneVirtualMachine ::
  "Provisioner \<Rightarrow> SessionContext \<Rightarrow> Cluster \<Rightarrow> Machine \<Rightarrow> World \<Rightarrow> error option \<times> World" where
  "cloneVirtualMachine pv s cluster machine w =
     (case cloneSpecBase pv s cluster machine of
        Inl err \<Rightarrow> (Some err, w)
      | Inr b \<Rightarrow>
          (case deviceChanges s (base_machineSpec b) (base_devices b) of
             Inl err \<Rightarrow> (Some err, w)
           | Inr deviceSpecs \<Rightarrow>
               (let spec = (base_spec b)\<lparr>Config_DeviceChange := deviceSpecs\<rparr>;
                    w1 = (if eventRecorder pv
                          then Eventf EventTypeNormal ''Creating''
                                 (''Creating Machine '' @ Name machine) w
                          else w);
                    req = \<lparr>CloneSource = base_src b, CloneFolder = base_vmFolder b,
                           CloneName = Name machine, CloneSpec = spec\<rparr>;
                    w2 = w1\<lparr>clones := clones w1 @ [req]\<rparr>
                in case Clone s req of
                     Inl err \<Rightarrow> (Some err, w2)
                   | Inr task \<Rightarrow> setTaskRef pv machine task w2)))"

subsection \<open>The reconciler's entry point: Create\<close>

definition Create ::
  "Provisioner \<Rightarrow> Cluster option \<Rightarrow> Machine \<Rightarrow> World \<Rightarrow> error option \<times> World" where
  "Create pv cluster machine w =
     (case cluster of
        None \<Rightarrow> (Some (ErrorString (ClusterIsNullErr pv)), w)
      | Some c \<Rightarrow>
          (case sessionFromProviderConfig pv c machine of
             Inl err \<Rightarrow> (Some err, w)
           | Inr s \<Rightarrow>
               (case UserSession s of
                  Some err \<Rightarrow> (Some err, w)
                | None \<Rightarrow>
                    (let task = GetActiveTasks machine in
                     if task \<noteq> '''' then verifyAndUpdateTask pv s machine task w
                     else
                       (case findVMByInstanceUUID s machine of
                          Inl err \<Rightarrow> (Some err, w)
                        | Inr vmRef \<Rightarrow>
                            (if vmRef \<noteq> '''' then
                               (if \<not> eventRecorder pv
                                then (Some (Panic ''nil pointer dereference''), w)
                                else
                                  (case updateVMReference pv machine vmRef
                                          (Eventf EventTypeNormal ''Created''
                                             (''Created Machine '' @ Name machine @ ''(''
                                                @ vmRef @ '')'') w) of
                                     ((m', Some err), w2) \<Rightarrow> (Some err, w2)
                                   | ((m', None), w2) \<Rightarrow>
                                       cloneVirtualMachine pv s c machine w2))
                             else cloneVirtualMachine pv s c machine w))))))"

subsection \<open>A worked scenario\<close>

text \<open>
  One node, one template and a platform that answers every query, used to run the
  functions above on concrete inputs. The template has a controller, the disk \<open>data\<close> of
  50 GiB and two network adapters; the node asks for two networks.
\<close>

definition exampleMachineSpec :: "DiskSpec list \<Rightarrow> VsphereMachineSpec" where
  "exampleMachineSpec disks =
     \<lparr>Datacenter = ''dc-1'', Datastore = ''datastore-1'', ResourcePool = '''',
      VMFolder = ''vm'',
      Networks = [\<lparr>NetworkName = ''net-a''\<rparr>, \<lparr>NetworkName = ''net-b''\<rparr>],
      NumCPUs = 2, MemoryMB = 2048, VMTemplate = ''ubuntu-template'',
      Disks = disks, VsphereCloudInit = True\<rparr>"

definition exampleMachine :: "string \<Rightarrow> DiskSpec list \<Rightarrow> Machine" where
  "exampleMachine taskref disks =
     \<lparr>Name = ''node-1'', UID = ''uid-1'',
      ProviderSpec = Inr \<lparr>Kind = '''', APIVersion = '''', MachineRef = '''',
                          MachineSpec = exampleMachineSpec disks\<rparr>,
      ProviderStatus = Inr (Some \<lparr>TaskRef = taskref, LastUpdated = ''t0''\<rparr>)\<rparr>"

definition exampleTemplate :: VirtualMachineConfigInfo where
  "exampleTemplate =
     \<lparr>VAppConfig = None,
      HardwareDevice =
        [VirtualController 1000,
         VirtualDisk 2000 (Some ''data'') (50 * 2 ^ 30),
         VirtualEthernetCard 4000 ''VM Network'',
         VirtualVmxnet3 4001 ''VM Network 2'']\<rparr>"

definition exampleSession :: "(error + TaskInfo) \<Rightarrow> string option \<Rightarrow> SessionContext" where
  "exampleSession task vm =
     \<lparr>UserSession = None,
      RetrieveOne = (\<lambda>ref. task),
      FindByUuid = (\<lambda>dc uuid. if dc = None \<and> uuid = ''uid-1'' then Inr vm else Inr None),
      DatacenterOrDefault = (\<lambda>name. Inr name),
      FinderVirtualMachine = (\<lambda>name. Inr ''vm-7''),
      HostSystem = (\<lambda>src. Inr ''host-3''),
      PropertiesHost = (\<lambda>host. Inr ''esx-1''),
      FolderOrDefault = (\<lambda>name. Inr ''group-v3''),
      DatastoreOrDefault = (\<lambda>name. Inr ''datastore-11''),
      PropertiesVM = (\<lambda>src. Inr (Some exampleTemplate)),
      ResourcePoolOrDefault = (\<lambda>name. Inl (NotFoundError name)),
      HostResourcePool = (\<lambda>host. Inr ''resgroup-8''),
      ResourcePoolCreate = (\<lambda>root name. Inr ''resgroup-9''),
      FinderNetwork = (\<lambda>name. Inr (''network-'' @ name)),
      EthernetCardBackingInfo = (\<lambda>net. Inr (''backing-'' @ net)),
      Clone = (\<lambda>req. Inr ''task-43'')\<rparr>"

definition exampleProvisioner :: "SessionContext \<Rightarrow> Provisioner" where
  "exampleProvisioner s =
     \<lparr>clusterV1alpha1 = Some \<lparr>Update = (\<lambda>m. None), UpdateStatus = (\<lambda>m. None)\<rparr>,
      eventRecorder = True,
      sessionFromProviderConfig = (\<lambda>c m. Inr s),
      getCloudInitUserData = (\<lambda>c m path. Inr ''dXNlcg==''),
      getCloudInitMetaData = (\<lambda>c m. Inr ''bWV0YQ==''),
      GetSSHPublicKey = (\<lambda>c. Inr ''ssh-rsa AAAA''),
      IsValidUUID = (\<lambda>x. False),
      SchemeGroupVersion = ''vsphereproviderconfig/v1alpha1'',
      ClusterIsNullErr = ''cluster is nil'',
      timeNow = ''t1''\<rparr>"

definition exampleWorld :: "Machine \<Rightarrow> World" where
  "exampleWorld m = \<lparr>stored = m, events = [], clones = []\<rparr>"

definition exampleTask :: "string \<Rightarrow> string \<Rightarrow> error + TaskInfo" where
  "exampleTask st kind =
     Inr \<lparr>State = st, DescriptionId = kind, Result = ManagedObjectReference ''vm-101'',
          EntityName = ''node-1''\<rparr>"

definition exampleCluster :: Cluster where
  "exampleCluster = \<lparr>ClusterName = ''cluster-1''\<rparr>"

subsection \<open>Reading devices and records\<close>

text \<open>
  What the statements below read off a device or a machine: whether a device carries a
  description, the label of a disk, the key of a device, and the VM reference recorded in
  a machine's provider spec.
\<close>

fun hasDeviceInfo :: "VirtualDevice \<Rightarrow> bool" where
  "hasDeviceInfo (VirtualDisk key None cap) = False"
| "hasDeviceInfo dev = True"

fun DiskDeviceLabel :: "VirtualDevice \<Rightarrow> string option" where
  "DiskDeviceLabel (VirtualDisk key info cap) = info"
| "DiskDeviceLabel dev = None"

fun DeviceKey :: "VirtualDevice \<Rightarrow> 32 word" where
  "DeviceKey (VirtualDisk key info cap) = key"
| "DeviceKey (VirtualEthernetCard key backing) = key"
| "DeviceKey (VirtualVmxnet3 key backing) = key"
| "DeviceKey (VirtualController key) = key"

definition InstanceReference :: "Machine \<Rightarrow> string" where
  "InstanceReference machine =
     (case ProviderSpec machine of Inl err \<Rightarrow> '''' | Inr cfg \<Rightarrow> MachineRef cfg)"

subsection \<open>Runs of the worked scenario\<close>

text \<open>
  Sessions for the scenario: one whose state query fails in transport, one whose task is
  a finished clone of the VM \<open>vm-101\<close> that also resolves by the node's UID, and one
  with no task and no VM. Then the reconcile that sees the finished clone, followed by
  the next reconcile on the record it left; the same pair of reconciles around a state
  query that fails in transport; a directive whose size in bytes leaves the 64-bit range;
  and the specification the scenario builds.
\<close>

definition lostSession :: SessionContext where
  "lostSession = exampleSession (Inl (TransportError ''connection refused'')) None"

definition successSession :: SessionContext where
  "successSession =
     exampleSession (exampleTask ''success'' ''VirtualMachine.clone'') (Some ''vm-101'')"

definition idleSession :: SessionContext where
  "idleSession = exampleSession (Inl (Fault ''ManagedObjectNotFound'')) None"

definition exampleBase :: "DiskSpec list \<Rightarrow> CloneBase" where
  "exampleBase disks =
     \<lparr>base_machineSpec = exampleMachineSpec disks,
      base_src = ''vm-7'',
      base_vmFolder = ''group-v3'',
      base_spec =
        \<lparr>Location_Datastore = ''datastore-11'',
         Location_Pool = ''resgroup-8'',
         Location_DiskMoveType = ''moveAllDiskBackingsAndConsolidate'',
         Config_InstanceUuid = ''uid-1'',
         Config_DiskUuidEnabled = True,
         Config_NumCPUs = 2,
         Config_MemoryMB = 2048,
         Config_Annotation =
           ''Virtual Machine is part of the cluster cluster-1 managed by cluster-api'',
         Config_ExtraConfig =
           [\<lparr>OptKey = ''guestinfo.metadata'', OptValue = ''bWV0YQ==''\<rparr>,
            \<lparr>OptKey = ''guestinfo.metadata.encoding'', OptValue = ''base64''\<rparr>,
            \<lparr>OptKey = ''guestinfo.userdata'', OptValue = ''dXNlcg==''\<rparr>,
            \<lparr>OptKey = ''guestinfo.userdata.encoding'', OptValue = ''base64''\<rparr>],
         Config_VAppConfig = None,
         Config_DeviceChange = [],
         PowerOn = True\<rparr>,
      base_devices = HardwareDevice exampleTemplate\<rparr>"

definition afterCloneSuccess :: "error option \<times> World" where
  "afterCloneSuccess =
     verifyAndUpdateTask (exampleProvisioner successSession) successSession
       (exampleMachine ''task-42'' []) ''task-42'' (exampleWorld (exampleMachine ''task-42'' []))"

definition nextReconcile :: "error option \<times> World" where
  "nextReconcile =
     Create (exampleProvisioner successSession) (Some exampleCluster)
       (stored (snd afterCloneSuccess)) (snd afterCloneSuccess)"

definition afterTransportFailure :: "error option \<times> World" where
  "afterTransportFailure =
     verifyAndUpdateTask (exampleProvisioner lostSession) lostSession
       (exampleMachine ''task-42'' []) ''task-42'' (exampleWorld (exampleMachine ''task-42'' []))"

definition reconcileAfterTransportFailure :: "error option \<times> World" where
  "reconcileAfterTransportFailure =
     Create (exampleProvisioner lostSession) (Some exampleCluster)
       (stored (snd afterTransportFailure)) (snd afterTransportFailure)"


definition exampleDeviceChange :: "VirtualDeviceConfigSpec list" where
  "exampleDeviceChange =
     [\<lparr>Operation = VirtualDeviceConfigSpecOperationEdit,
       Device = VirtualDisk 2000 (Some ''data'') (100 * 2 ^ 30)\<rparr>,
      \<lparr>Operation = VirtualDeviceConfigSpecOperationRemove,
       Device = VirtualEthernetCard 4000 ''VM Network''\<rparr>,
      \<lparr>Operation = VirtualDeviceConfigSpecOperationRemove,
       Device = VirtualEthernetCard 4001 ''VM Network 2''\<rparr>,
      \<lparr>Operation = VirtualDeviceConfigSpecOperationAdd,
       Device = VirtualVmxnet3 (- 100) ''backing-network-net-a''\<rparr>,
      \<lparr>Operation = VirtualDeviceConfigSpecOperationAdd,
       Device = VirtualVmxnet3 (- 101) ''backing-network-net-b''\<rparr>]"

section \<open>Properties\<close>

lemmas example_defs =
  exampleSession_def exampleTask_def exampleProvisioner_def exampleWorld_def
  exampleMachine_def exampleMachineSpec_def exampleTemplate_def exampleCluster_def

lemmas state_defs =
  TaskInfoStateQueued_def TaskInfoStateRunning_def TaskInfoStateSuccess_def
  TaskInfoStateError_def

subsection \<open>The status write\<close>

text \<open>
  Clearing a stored, non-empty Task Reference is a real write: when the client is there
  and the server accepts the object, the record carries the empty reference afterwards.
\<close>

lemma setTaskRef_clears:
  assumes "ProviderStatus machine = Inr (Some st)" and "TaskRef st \<noteq> ''''"
    and "clusterV1alpha1 pv = Some client"
    and "UpdateStatus client
           (machine\<lparr>ProviderStatus :=
              Inr (Some (st\<lparr>TaskRef := '''', LastUpdated := timeNow pv\<rparr>))\<rparr>) = None"
  shows "setTaskRef pv machine '''' w =
           (None, w\<lparr>stored := machine\<lparr>ProviderStatus :=
              Inr (Some (st\<lparr>TaskRef := '''', LastUpdated := timeNow pv\<rparr>))\<rparr>\<rparr>)"
  using assms by (simp add: setTaskRef_def GetMachineProviderStatus_def)

subsection \<open>The task tracker\<close>

text \<open>
  C5: when the state query answers with a state that is none of queued, running, success
  and error, the call returns a hard error (the ``Unknown state'' error of the default
  branch) and changes nothing: the world after the call is the world before it, so the
  stored Task Reference is untouched.
\<close>

theorem unknown_state_is_hard_error:
  assumes "RetrieveOne s taskmoref = Inr info"
    and "State info \<noteq> TaskInfoStateQueued"
    and "State info \<noteq> TaskInfoStateRunning"
    and "State info \<noteq> TaskInfoStateSuccess"
    and "State info \<noteq> TaskInfoStateError"
  shows "verifyAndUpdateTask pv s machine taskmoref w =
           (Some (ErrorString
              (''Unknown state '' @ taskmoref @ '' for task '' @ State info @ '' detected'')), w)
         \<and> hardError (fst (verifyAndUpdateTask pv s machine taskmoref w))
         \<and> stored (snd (verifyAndUpdateTask pv s machine taskmoref w)) = stored w"
  using assms by (simp add: verifyAndUpdateTask_def)

theorem unknown_state_is_hard_error_witness:
  "fst (verifyAndUpdateTask
          (exampleProvisioner (exampleSession (exampleTask ''paused'' ''VirtualMachine.clone'') None))
          (exampleSession (exampleTask ''paused'' ''VirtualMachine.clone'') None)
          (exampleMachine ''task-42'' []) ''task-42'' (exampleWorld (exampleMachine ''task-42'' [])))
     = Some (ErrorString ''Unknown state task-42 for task paused detected'')
   \<and> GetActiveTasks (stored (snd (verifyAndUpdateTask
          (exampleProvisioner (exampleSession (exampleTask ''paused'' ''VirtualMachine.clone'') None))
          (exampleSession (exampleTask ''paused'' ''VirtualMachine.clone'') None)
          (exampleMachine ''task-42'' []) ''task-42''
          (exampleWorld (exampleMachine ''task-42'' []))))) = ''task-42''"
  using unknown_state_is_hard_error
    [of "exampleSession (exampleTask ''paused'' ''VirtualMachine.clone'') None" "''task-42''"
        "\<lparr>State = ''paused'', DescriptionId = ''VirtualMachine.clone'',
          Result = ManagedObjectReference ''vm-101'', EntityName = ''node-1''\<rparr>"
        "exampleProvisioner (exampleSession (exampleTask ''paused'' ''VirtualMachine.clone'') None)"
        "exampleMachine ''task-42'' []" "exampleWorld (exampleMachine ''task-42'' [])"]
  by (simp add: exampleSession_def exampleTask_def state_defs
      exampleWorld_def exampleMachine_def GetActiveTasks_def GetMachineProviderStatus_def)

text \<open>
  C6: when the state query answers queued or running, the call changes nothing (the world
  after the call is the world before it) and returns the retry signal
  \<open>RequeueAfterError\<close> with a delay of five seconds, which is not a hard error.
\<close>

theorem requeue_while_queued_or_running:
  assumes "RetrieveOne s taskmoref = Inr info"
    and "State info = TaskInfoStateQueued \<or> State info = TaskInfoStateRunning"
  shows "verifyAndUpdateTask pv s machine taskmoref w = (Some (RequeueAfterError (5 * Second)), w)
         \<and> \<not> hardError (fst (verifyAndUpdateTask pv s machine taskmoref w))"
  using assms by (auto simp add: verifyAndUpdateTask_def Second_def)

theorem requeue_while_queued_or_running_witness:
  "verifyAndUpdateTask
     (exampleProvisioner (exampleSession (exampleTask ''running'' ''VirtualMachine.clone'') None))
     (exampleSession (exampleTask ''running'' ''VirtualMachine.clone'') None)
     (exampleMachine ''task-42'' []) ''task-42'' (exampleWorld (exampleMachine ''task-42'' []))
   = (Some (RequeueAfterError 5000000000), exampleWorld (exampleMachine ''task-42'' []))"
  using requeue_while_queued_or_running
    [of "exampleSession (exampleTask ''running'' ''VirtualMachine.clone'') None" "''task-42''"
        "\<lparr>State = ''running'', DescriptionId = ''VirtualMachine.clone'',
          Result = ManagedObjectReference ''vm-101'', EntityName = ''node-1''\<rparr>"
        "exampleProvisioner (exampleSession (exampleTask ''running'' ''VirtualMachine.clone'') None)"
        "exampleMachine ''task-42'' []" "exampleWorld (exampleMachine ''task-42'' [])"]
  by (simp add: exampleSession_def exampleTask_def state_defs Second_def)

text \<open>
  C10: when the tracked operation is not a clone and its state is error, the call
  returns nil, neither an error nor a retry signal, and changes nothing; however often it
  is repeated against the same answer, the world, and with it the stored Task Reference,
  stays as it was.
\<close>

theorem failed_other_operation_is_left_alone:
  assumes "RetrieveOne s taskmoref = Inr info"
    and "State info = TaskInfoStateError"
    and "DescriptionId info \<noteq> ''VirtualMachine.clone''"
  shows "verifyAndUpdateTask pv s machine taskmoref w = (None, w)
         \<and> ((\<lambda>w'. snd (verifyAndUpdateTask pv s machine taskmoref w')) ^^ n) w = w"
proof -
  have one: "verifyAndUpdateTask pv s machine taskmoref w' = (None, w')" for w'
    using assms by (simp add: verifyAndUpdateTask_def state_defs)
  have "((\<lambda>w'. snd (verifyAndUpdateTask pv s machine taskmoref w')) ^^ n) w = w"
    by (induction n) (simp_all add: one)
  with one show ?thesis by simp
qed

theorem failed_other_operation_is_left_alone_witness:
  "verifyAndUpdateTask
     (exampleProvisioner (exampleSession (exampleTask ''error'' ''VirtualMachine.reconfigure'') None))
     (exampleSession (exampleTask ''error'' ''VirtualMachine.reconfigure'') None)
     (exampleMachine ''task-42'' []) ''task-42'' (exampleWorld (exampleMachine ''task-42'' []))
   = (None, exampleWorld (exampleMachine ''task-42'' []))
   \<and> GetActiveTasks (stored (exampleWorld (exampleMachine ''task-42'' []))) = ''task-42''"
  using failed_other_operation_is_left_alone
    [of "exampleSession (exampleTask ''error'' ''VirtualMachine.reconfigure'') None" "''task-42''"
        "\<lparr>State = ''error'', DescriptionId = ''VirtualMachine.reconfigure'',
          Result = ManagedObjectReference ''vm-101'', EntityName = ''node-1''\<rparr>"
        "exampleProvisioner (exampleSession (exampleTask ''error'' ''VirtualMachine.reconfigure'') None)"
        "exampleMachine ''task-42'' []" "exampleWorld (exampleMachine ''task-42'' [])" 0]
  by (simp add: exampleSession_def exampleTask_def state_defs exampleWorld_def
      exampleMachine_def GetActiveTasks_def GetMachineProviderStatus_def)

text \<open>
  C4: when the tracked operation is a clone and its state is error, then, with a recorder
  and a client in place and the status write accepted, the call emits the ``Failed''
  event, leaves the record with an empty Task Reference, submits nothing, and returns nil:
  the failure of the clone is not returned as an error.
\<close>

theorem failed_clone_clears_task:
  assumes "RetrieveOne s taskmoref = Inr info"
    and "State info = TaskInfoStateError"
    and "DescriptionId info = ''VirtualMachine.clone''"
    and "eventRecorder pv"
    and "ProviderStatus machine = Inr (Some st)" and "TaskRef st \<noteq> ''''"
    and "clusterV1alpha1 pv = Some client"
    and "UpdateStatus client
           (machine\<lparr>ProviderStatus :=
              Inr (Some (st\<lparr>TaskRef := '''', LastUpdated := timeNow pv\<rparr>))\<rparr>) = None"
  shows "fst (verifyAndUpdateTask pv s machine taskmoref w) = None
         \<and> \<not> hardError (fst (verifyAndUpdateTask pv s machine taskmoref w))
         \<and> events (snd (verifyAndUpdateTask pv s machine taskmoref w)) =
             events w @ [\<lparr>eventtype = ''Normal'', reason = ''Failed'',
                          message = ''Creation failed for Machine '' @ Name machine\<rparr>]
         \<and> GetActiveTasks (stored (snd (verifyAndUpdateTask pv s machine taskmoref w))) = ''''
         \<and> clones (snd (verifyAndUpdateTask pv s machine taskmoref w)) = clones w"
  using assms
  by (simp add: verifyAndUpdateTask_def state_defs setTaskRef_clears [OF assms(5-8)]
      Eventf_def EventTypeNormal_def GetActiveTasks_def GetMachineProviderStatus_def)

theorem failed_clone_clears_task_witness:
  "fst (verifyAndUpdateTask
     (exampleProvisioner (exampleSession (exampleTask ''error'' ''VirtualMachine.clone'') None))
     (exampleSession (exampleTask ''error'' ''VirtualMachine.clone'') None)
     (exampleMachine ''task-42'' []) ''task-42'' (exampleWorld (exampleMachine ''task-42'' [])))
   = None
   \<and> events (snd (verifyAndUpdateTask
     (exampleProvisioner (exampleSession (exampleTask ''error'' ''VirtualMachine.clone'') None))
     (exampleSession (exampleTask ''error'' ''VirtualMachine.clone'') None)
     (exampleMachine ''task-42'' []) ''task-42'' (exampleWorld (exampleMachine ''task-42'' []))))
   = [\<lparr>eventtype = ''Normal'', reason = ''Failed'',
        message = ''Creation failed for Machine node-1''\<rparr>]
   \<and> GetActiveTasks (stored (snd (verifyAndUpdateTask
     (exampleProvisioner (exampleSession (exampleTask ''error'' ''VirtualMachine.clone'') None))
     (exampleSession (exampleTask ''error'' ''VirtualMachine.clone'') None)
     (exampleMachine ''task-42'' []) ''task-42'' (exampleWorld (exampleMachine ''task-42'' [])))))
   = ''''"
  using failed_clone_clears_task
    [of "exampleSession (exampleTask ''error'' ''VirtualMachine.clone'') None" "''task-42''"
        "\<lparr>State = ''error'', DescriptionId = ''VirtualMachine.clone'',
          Result = ManagedObjectReference ''vm-101'', EntityName = ''node-1''\<rparr>"
        "exampleProvisioner (exampleSession (exampleTask ''error'' ''VirtualMachine.clone'') None)"
        "exampleMachine ''task-42'' []"
        "\<lparr>TaskRef = ''task-42'', LastUpdated = ''t0''\<rparr>"
        "\<lparr>Update = (\<lambda>m. None), UpdateStatus = (\<lambda>m. None)\<rparr>"
        "exampleWorld (exampleMachine ''task-42'' [])"]
  by (simp add: example_defs state_defs)

text \<open>
  The state query's error is not inspected: whatever the failure, the call is the status
  write that clears the reference. For a machine with a stored, non-empty Task Reference,
  a client in place and the write accepted, it returns nil, leaves the record with an
  empty Task Reference and emits no event.
\<close>

lemma query_failure_clears_task:
  assumes "RetrieveOne s taskmoref = Inl err"
    and "ProviderStatus machine = Inr (Some st)" and "TaskRef st \<noteq> ''''"
    and "clusterV1alpha1 pv = Some client"
    and "UpdateStatus client
           (machine\<lparr>ProviderStatus :=
              Inr (Some (st\<lparr>TaskRef := '''', LastUpdated := timeNow pv\<rparr>))\<rparr>) = None"
  shows "verifyAndUpdateTask pv s machine taskmoref w = setTaskRef pv machine '''' w
         \<and> fst (verifyAndUpdateTask pv s machine taskmoref w) = None
         \<and> GetActiveTasks (stored (snd (verifyAndUpdateTask pv s machine taskmoref w))) = ''''
         \<and> events (snd (verifyAndUpdateTask pv s machine taskmoref w)) = events w"
  using assms(1)
  by (simp add: verifyAndUpdateTask_def setTaskRef_clears [OF assms(2-5)]
      GetActiveTasks_def GetMachineProviderStatus_def)

text \<open>
  C2: the code at the failing input. The state query fails in transport, not because the
  reference is unknown. The call does not return that error: it returns nil and clears the
  stored reference \<open>task-42\<close>. The next reconcile, on the record so left, finds no Task
  Reference and hands a clone request to the platform, with nothing learnt about the
  operation \<open>task-42\<close>.
\<close>

theorem transport_failure_clears_task:
  "RetrieveOne lostSession ''task-42'' = Inl (TransportError ''connection refused'')
   \<and> GetActiveTasks (exampleMachine ''task-42'' []) = ''task-42''
   \<and> fst afterTransportFailure = None
   \<and> GetActiveTasks (stored (snd afterTransportFailure)) = ''''
   \<and> clones (snd afterTransportFailure) = []
   \<and> fst reconcileAfterTransportFailure = None
   \<and> length (clones (snd reconcileAfterTransportFailure)) = 1"
  by (simp add: reconcileAfterTransportFailure_def afterTransportFailure_def lostSession_def
      example_defs verifyAndUpdateTask_def setTaskRef_def
      GetMachineProviderSpec_def GetMachineProviderStatus_def GetActiveTasks_def
      Eventf_def EventTypeNormal_def Create_def
      findVMByInstanceUUID_def cloneVirtualMachine_def cloneSpecBase_def resolveTemplate_def
      resolvePool_def guestCustomization_def deviceChanges_def diskMap_def Let_def)

text \<open>
  A finished clone: with a recorder and a client in place and both writes accepted, the
  call emits the ``Created'' event, records the VM reference of the task's result in the
  machine and clears the Task Reference of the updated machine.
\<close>

lemma clone_success_records_instance:
  assumes "RetrieveOne s taskmoref = Inr info"
    and "State info = TaskInfoStateSuccess"
    and "DescriptionId info = ''VirtualMachine.clone''"
    and "Result info = ManagedObjectReference vmref"
    and "eventRecorder pv"
    and "ProviderSpec machine = Inr cfg"
    and "ProviderStatus machine = Inr (Some st)" and "TaskRef st \<noteq> ''''"
    and "clusterV1alpha1 pv = Some client"
    and "m1 = machine\<lparr>ProviderSpec := Inr (cfg\<lparr>MachineRef := vmref,
                 Kind := ''VsphereMachineProviderConfig'',
                 APIVersion := SchemeGroupVersion pv\<rparr>)\<rparr>"
    and "m2 = m1\<lparr>ProviderStatus :=
                 Inr (Some (st\<lparr>TaskRef := '''', LastUpdated := timeNow pv\<rparr>))\<rparr>"
    and "Update client m1 = None"
    and "UpdateStatus client m2 = None"
  shows "verifyAndUpdateTask pv s machine taskmoref w =
           (None, w\<lparr>events := events w @
                      [\<lparr>eventtype = ''Normal'', reason = ''Created'',
                        message = ''Created Machine '' @ Name machine @ ''('' @ vmref @ '')''\<rparr>],
                    stored := m2\<rparr>)"
proof -
  have st1: "ProviderStatus m1 = Inr (Some st)"
    using assms(7,10) by simp
  have upd: "UpdateStatus client
           (m1\<lparr>ProviderStatus :=
              Inr (Some (st\<lparr>TaskRef := '''', LastUpdated := timeNow pv\<rparr>))\<rparr>) = None"
    using assms(11,13) by simp
  note clr = setTaskRef_clears [OF st1 assms(8) assms(9) upd]
  show ?thesis
    using assms(1-6,9,12) unfolding assms(11)
    by (simp add: verifyAndUpdateTask_def state_defs updateVMReference_def
        GetMachineProviderSpec_def Eventf_def EventTypeNormal_def clr
        assms(10) [symmetric] Let_def)
qed

text \<open>
  C3: the code at the failing input. The reconcile that sees the finished clone records
  \<open>vm-101\<close>, clears the Task Reference and submits nothing. The next reconcile, on the
  record so left, finds no Task Reference and the platform resolves the node's UID to
  \<open>vm-101\<close>; it nevertheless hands a clone request to the platform and stores the new
  task \<open>task-43\<close>.
\<close>

theorem clone_success_then_clone_again:
  "fst afterCloneSuccess = None
   \<and> InstanceReference (stored (snd afterCloneSuccess)) = ''vm-101''
   \<and> GetActiveTasks (stored (snd afterCloneSuccess)) = ''''
   \<and> clones (snd afterCloneSuccess) = []
   \<and> FindByUuid successSession None (UID (stored (snd afterCloneSuccess))) = Inr (Some ''vm-101'')
   \<and> fst nextReconcile = None
   \<and> length (clones (snd nextReconcile)) = 1
   \<and> GetActiveTasks (stored (snd nextReconcile)) = ''task-43''"
  by (simp add: nextReconcile_def afterCloneSuccess_def successSession_def example_defs
      verifyAndUpdateTask_def state_defs updateVMReference_def setTaskRef_def
      GetMachineProviderSpec_def GetMachineProviderStatus_def GetActiveTasks_def
      Eventf_def EventTypeNormal_def InstanceReference_def Create_def
      findVMByInstanceUUID_def cloneVirtualMachine_def cloneSpecBase_def resolveTemplate_def
      resolvePool_def guestCustomization_def deviceChanges_def diskMap_def Let_def)


subsection \<open>Disk directives\<close>


lemma diskMap_fold_None:
  "fold (\<lambda>s m. m(DiskLabel s \<mapsto> DiskSizeGB s)) specs m l = None
     \<longleftrightarrow> m l = None \<and> l \<notin> DiskLabel ` set specs"
  by (induction specs arbitrary: m) auto

lemma diskMap_None: "diskMap specs l = None \<longleftrightarrow> l \<notin> DiskLabel ` set specs"
  by (simp add: diskMap_def diskMap_fold_None)

lemma diskMap_fold_other:
  "l \<notin> DiskLabel ` set specs \<Longrightarrow>
   fold (\<lambda>s m. m(DiskLabel s \<mapsto> DiskSizeGB s)) specs m l = m l"
  by (induction specs arbitrary: m) auto

lemma diskMap_fold_distinct:
  "distinct (map DiskLabel specs) \<Longrightarrow> d \<in> set specs \<Longrightarrow>
   fold (\<lambda>s m. m(DiskLabel s \<mapsto> DiskSizeGB s)) specs m (DiskLabel d) = Some (DiskSizeGB d)"
proof (induction specs arbitrary: m)
  case Nil
  then show ?case by simp
next
  case (Cons x xs)
  show ?case
  proof (cases "d \<in> set xs")
    case True
    with Cons show ?thesis by simp
  next
    case False
    with Cons.prems have eq: "d = x" by simp
    have "DiskLabel x \<notin> DiskLabel ` set xs"
      using Cons.prems(1) by simp
    then have "fold (\<lambda>s m. m(DiskLabel s \<mapsto> DiskSizeGB s)) xs
                 (m(DiskLabel x \<mapsto> DiskSizeGB x)) (DiskLabel x)
               = (m(DiskLabel x \<mapsto> DiskSizeGB x)) (DiskLabel x)"
      by (rule diskMap_fold_other)
    then show ?thesis
      unfolding eq by (simp only: fold_Cons comp_apply fun_upd_same)
  qed
qed

lemma diskMap_distinct:
  "distinct (map DiskLabel specs) \<Longrightarrow> d \<in> set specs \<Longrightarrow>
   diskMap specs (DiskLabel d) = Some (DiskSizeGB d)"
  unfolding diskMap_def by (rule diskMap_fold_distinct)


lemma resizeDisks_no_match:
  assumes "list_all isVirtualDisk disks"
    and "list_all hasDeviceInfo disks"
    and "\<forall>dev\<in>set disks. \<forall>l. DiskDeviceLabel dev = Some l \<longrightarrow> dm l = None"
  shows "resizeDisks dm disks diskChange deviceSpecs = Inr (diskChange, deviceSpecs)"
  using assms
proof (induction dm disks diskChange deviceSpecs rule: resizeDisks.induct)
  case (2 dm key' info cap' rest diskChange deviceSpecs)
  then show ?case by (cases info) auto
qed simp_all

lemma resizeDisks_edits:
  assumes "resizeDisks dm disks diskChange deviceSpecs = Inr (diskChange', deviceSpecs')"
  shows "\<exists>edits. deviceSpecs' = deviceSpecs @ edits
           \<and> list_all (\<lambda>d. Operation d = VirtualDeviceConfigSpecOperationEdit) edits"
  using assms
proof (induction dm disks diskChange deviceSpecs rule: resizeDisks.induct)
  case (1 dm diskChange deviceSpecs)
  then show ?case by simp
next
  case (2 dm key' info cap' rest diskChange deviceSpecs)
  from "2.prems" obtain label where info: "info = Some label"
    by (cases info) auto
  show ?case
  proof (cases "dm label")
    case None
    with 2 info show ?thesis by simp
  next
    case (Some newSize)
    with "2.prems" info have fits: "\<not> sint (GiBToByte newSize) < sint cap'"
      by (auto split: if_splits)
    let ?e = "\<lparr>Operation = VirtualDeviceConfigSpecOperationEdit,
               Device = VirtualDisk key' info (GiBToByte newSize)\<rparr>"
    from "2.prems" info Some fits
    have "resizeDisks dm rest True (deviceSpecs @ [?e]) = Inr (diskChange', deviceSpecs')"
      by simp
    from "2.IH"(2) [OF info Some fits this] obtain edits where
      "deviceSpecs' = (deviceSpecs @ [?e]) @ edits"
      "list_all (\<lambda>d. Operation d = VirtualDeviceConfigSpecOperationEdit) edits"
      by blast
    then show ?thesis
      by (intro exI [of _ "?e # edits"]) simp
  qed
qed simp_all

lemma exampleBase_built:
  "cloneSpecBase (exampleProvisioner (exampleSession t v)) (exampleSession t v) exampleCluster
     (exampleMachine r disks) = Inr (exampleBase disks)"
  by (simp add: cloneSpecBase_def example_defs exampleBase_def GetMachineProviderSpec_def
      resolveTemplate_def resolvePool_def guestCustomization_def Let_def)

lemma setTaskRef_keeps:
  "clones (snd (setTaskRef pv machine taskref w)) = clones w"
  "events (snd (setTaskRef pv machine taskref w)) = events w"
  by (simp_all add: setTaskRef_def Let_def split: sum.splits option.splits)





text \<open>
  C8: when the directives are not empty and no directive's label is the label of a disk
  of the template, then, everything before the device changes having resolved and every
  disk carrying its description, the call fails with the fatal no-match error and the
  world is unchanged: no clone request is handed to the platform.
\<close>

theorem unmatched_directives_are_rejected:
  assumes base: "cloneSpecBase pv s cluster machine = Inr b"
    and info: "list_all hasDeviceInfo (base_devices b)"
    and nonempty: "Disks (base_machineSpec b) \<noteq> []"
    and nomatch: "\<forall>d\<in>set (Disks (base_machineSpec b)).
                    Some (DiskLabel d) \<notin> DiskDeviceLabel ` set (base_devices b)"
  shows "cloneVirtualMachine pv s cluster machine w =
           (Some (ErrorString
              (''[FATAL] None of the disks specified in the MachineSpec matched with the disks on the template ''
                 @ VMTemplate (base_machineSpec b))), w)
         \<and> hardError (fst (cloneVirtualMachine pv s cluster machine w))
         \<and> clones (snd (cloneVirtualMachine pv s cluster machine w)) = clones w"
proof -
  have a: "list_all isVirtualDisk (filter isVirtualDisk (base_devices b))"
    by (simp add: list_all_iff)
  have i: "list_all hasDeviceInfo (filter isVirtualDisk (base_devices b))"
    using info by (simp add: list_all_iff)
  have n: "\<forall>dev\<in>set (filter isVirtualDisk (base_devices b)).
             \<forall>l. DiskDeviceLabel dev = Some l \<longrightarrow> diskMap (Disks (base_machineSpec b)) l = None"
  proof (intro ballI allI impI)
    fix dev l
    assume dev: "dev \<in> set (filter isVirtualDisk (base_devices b))"
      and l: "DiskDeviceLabel dev = Some l"
    from dev have "dev \<in> set (base_devices b)"
      by simp
    with l have "Some l \<in> DiskDeviceLabel ` set (base_devices b)"
      by (metis image_eqI)
    with nomatch have "l \<notin> DiskLabel ` set (Disks (base_machineSpec b))"
      by auto
    then show "diskMap (Disks (base_machineSpec b)) l = None"
      by (simp add: diskMap_None)
  qed
  note resizeDisks_no_match
    [where dm = "diskMap (Disks (base_machineSpec b))", OF a i n]
  then show ?thesis
    using nonempty by (simp add: cloneVirtualMachine_def base deviceChanges_def)
qed

theorem unmatched_directives_are_rejected_witness:
  "cloneVirtualMachine (exampleProvisioner idleSession) idleSession exampleCluster
     (exampleMachine '''' [\<lparr>DiskLabel = ''dta'', DiskSizeGB = 100\<rparr>])
     (exampleWorld (exampleMachine '''' [\<lparr>DiskLabel = ''dta'', DiskSizeGB = 100\<rparr>]))
   = (Some (ErrorString ''[FATAL] None of the disks specified in the MachineSpec matched with the disks on the template ubuntu-template''),
      exampleWorld (exampleMachine '''' [\<lparr>DiskLabel = ''dta'', DiskSizeGB = 100\<rparr>]))"
  using unmatched_directives_are_rejected
    [of "exampleProvisioner idleSession" idleSession exampleCluster
        "exampleMachine '''' [\<lparr>DiskLabel = ''dta'', DiskSizeGB = 100\<rparr>]"
        "exampleBase [\<lparr>DiskLabel = ''dta'', DiskSizeGB = 100\<rparr>]"
        "exampleWorld (exampleMachine '''' [\<lparr>DiskLabel = ''dta'', DiskSizeGB = 100\<rparr>])"]
  unfolding idleSession_def
  by (simp add: exampleBase_built)
     (simp add: exampleBase_def exampleTemplate_def exampleMachineSpec_def)

subsection \<open>Network adapters\<close>

text \<open>
  The two adapter loops append to the device changes: a removal for every adapter they
  are given, and an addition for every network, keyed downwards from the first key.
\<close>

lemma removeNics_filtered:
  "list_all isVirtualEthernetCard nics \<Longrightarrow>
   \<exists>removals. removeNics nics deviceSpecs = Inr (deviceSpecs @ removals)
     \<and> list_all (\<lambda>d. Operation d = VirtualDeviceConfigSpecOperationRemove) removals
     \<and> map (\<lambda>d. Some (Device d)) removals = map GetVirtualEthernetCard nics"
proof (induction nics arbitrary: deviceSpecs)
  case Nil
  then show ?case by simp
next
  case (Cons dev nics)
  then obtain nic where nic: "GetVirtualEthernetCard dev = Some nic"
    by (cases dev) auto
  from Cons obtain removals where
    r: "removeNics nics (deviceSpecs @
          [\<lparr>Operation = VirtualDeviceConfigSpecOperationRemove, Device = nic\<rparr>])
        = Inr ((deviceSpecs @
          [\<lparr>Operation = VirtualDeviceConfigSpecOperationRemove, Device = nic\<rparr>]) @ removals)"
    and a: "list_all (\<lambda>d. Operation d = VirtualDeviceConfigSpecOperationRemove) removals"
    and m: "map (\<lambda>d. Some (Device d)) removals = map GetVirtualEthernetCard nics"
    by (auto dest!: Cons.IH [of "deviceSpecs @
          [\<lparr>Operation = VirtualDeviceConfigSpecOperationRemove, Device = nic\<rparr>]"])
  show ?case
    by (rule exI [of _ "\<lparr>Operation = VirtualDeviceConfigSpecOperationRemove, Device = nic\<rparr>
          # removals"])
      (simp add: nic r a m)
qed

lemma addNics_added:
  "addNics s nets nicid deviceSpecs = Inr r \<Longrightarrow>
   \<exists>adds. r = deviceSpecs @ adds
     \<and> list_all (\<lambda>d. Operation d = VirtualDeviceConfigSpecOperationAdd) adds
     \<and> map (\<lambda>d. DeviceKey (Device d)) adds = map (\<lambda>i. nicid - of_nat i) [0..<length nets]"
proof (induction nets arbitrary: nicid deviceSpecs)
  case Nil
  then show ?case by simp
next
  case (Cons n nets)
  from Cons.prems obtain backing where
    rest: "addNics s nets (nicid - 1)
            (deviceSpecs @ [\<lparr>Operation = VirtualDeviceConfigSpecOperationAdd,
                             Device = VirtualVmxnet3 nicid backing\<rparr>]) = Inr r"
    by (auto split: sum.splits)
  from Cons.IH [OF rest] obtain adds where
    r: "r = (deviceSpecs @ [\<lparr>Operation = VirtualDeviceConfigSpecOperationAdd,
                             Device = VirtualVmxnet3 nicid backing\<rparr>]) @ adds"
    and a: "list_all (\<lambda>d. Operation d = VirtualDeviceConfigSpecOperationAdd) adds"
    and k: "map (\<lambda>d. DeviceKey (Device d)) adds = map (\<lambda>i. nicid - 1 - of_nat i) [0..<length nets]"
    by blast
  have shift: "map (\<lambda>i. nicid - of_nat i) [0..<Suc (length nets)] =
               nicid # map (\<lambda>i. nicid - 1 - of_nat i) [0..<length nets]"
    by (simp add: upt_conv_Cons map_Suc_upt [symmetric] del: upt_Suc)
  show ?case
    by (rule exI [of _ "\<lparr>Operation = VirtualDeviceConfigSpecOperationAdd,
                        Device = VirtualVmxnet3 nicid backing\<rparr> # adds"])
      (simp add: r a k shift del: upt_Suc)
qed

lemma filter_same_operation:
  "list_all (\<lambda>d. Operation d = x) ds \<Longrightarrow>
   filter (\<lambda>d. Operation d = y) ds = (if x = y then ds else [])"
  by (induction ds) auto

lemma sint_nic_key:
  assumes "i < 2147483549"
  shows "sint (- 100 - word_of_nat i :: 32 word) = - 100 - int i"
proof -
  have "(- 100 - word_of_nat i :: 32 word) = word_of_int (- 100 - int i)"
    by simp
  then have "sint (- 100 - word_of_nat i :: 32 word) = signed_take_bit 31 (- 100 - int i)"
    by (simp only: sint_sbintrunc') simp
  also have "\<dots> = - 100 - int i"
    using assms by (intro signed_take_bit_int_eq_self) simp_all
  finally show ?thesis .
qed

lemma deviceChanges_shape:
  assumes "deviceChanges s ms l = Inr dc"
  shows "\<exists>edits removals adds. dc = edits @ removals @ adds
     \<and> list_all (\<lambda>d. Operation d = VirtualDeviceConfigSpecOperationEdit) edits
     \<and> list_all (\<lambda>d. Operation d = VirtualDeviceConfigSpecOperationRemove) removals
     \<and> map (\<lambda>d. Some (Device d)) removals =
         map GetVirtualEthernetCard (filter isVirtualEthernetCard l)
     \<and> list_all (\<lambda>d. Operation d = VirtualDeviceConfigSpecOperationAdd) adds
     \<and> map (\<lambda>d. DeviceKey (Device d)) adds =
         map (\<lambda>i. - 100 - of_nat i) [0..<length (Networks ms)]"
proof -
  from assms obtain diskChange deviceSpecs where
    rd: "resizeDisks (diskMap (Disks ms)) (filter isVirtualDisk l) False [] =
           Inr (diskChange, deviceSpecs)"
    by (auto simp add: deviceChanges_def split: sum.splits)
  from resizeDisks_edits [OF rd] have
    edits: "list_all (\<lambda>d. Operation d = VirtualDeviceConfigSpecOperationEdit) deviceSpecs"
    by simp
  have "list_all isVirtualEthernetCard (filter isVirtualEthernetCard l)"
    by (simp add: list_all_iff)
  from removeNics_filtered [OF this, of deviceSpecs] obtain removals where
    rn: "removeNics (filter isVirtualEthernetCard l) deviceSpecs = Inr (deviceSpecs @ removals)"
    and rem: "list_all (\<lambda>d. Operation d = VirtualDeviceConfigSpecOperationRemove) removals"
    and remmap: "map (\<lambda>d. Some (Device d)) removals =
         map GetVirtualEthernetCard (filter isVirtualEthernetCard l)"
    by blast
  from assms rd rn have
    an: "addNics s (Networks ms) (- 100) (deviceSpecs @ removals) = Inr dc"
    by (simp add: deviceChanges_def split: if_splits)
  from addNics_added [OF an] obtain adds where
    "dc = (deviceSpecs @ removals) @ adds"
    "list_all (\<lambda>d. Operation d = VirtualDeviceConfigSpecOperationAdd) adds"
    "map (\<lambda>d. DeviceKey (Device d)) adds =
       map (\<lambda>i. - 100 - of_nat i) [0..<length (Networks ms)]"
    by blast
  with edits rem remmap show ?thesis
    by (intro exI [of _ deviceSpecs] exI [of _ removals] exI [of _ adds]) simp
qed

text \<open>
  C9: whenever the specification is built, for any template and any number \<open>N\<close> of
  configured networks, the clone request handed to the platform carries device changes
  whose removals are exactly the template's network adapters, one each and in order, and
  whose additions are exactly \<open>N\<close>, with the keys \<open>-100\<close>, \<open>-101\<close>, ... in 32-bit
  arithmetic. Up to 2147483549 networks these keys are the negative integers
  \<open>-100 - i\<close> and pairwise distinct.
\<close>

theorem adapters_are_replaced:
  assumes base: "cloneSpecBase pv s cluster machine = Inr b"
    and built: "deviceChanges s (base_machineSpec b) (base_devices b) = Inr dc"
  shows "clones (snd (cloneVirtualMachine pv s cluster machine w)) =
           clones w @
             [\<lparr>CloneSource = base_src b, CloneFolder = base_vmFolder b,
               CloneName = Name machine,
               CloneSpec = (base_spec b)\<lparr>Config_DeviceChange := dc\<rparr>\<rparr>]
         \<and> map (\<lambda>d. Some (Device d))
               (filter (\<lambda>d. Operation d = VirtualDeviceConfigSpecOperationRemove) dc) =
             map GetVirtualEthernetCard (filter isVirtualEthernetCard (base_devices b))
         \<and> length (filter (\<lambda>d. Operation d = VirtualDeviceConfigSpecOperationAdd) dc) =
             length (Networks (base_machineSpec b))
         \<and> map (\<lambda>d. DeviceKey (Device d))
               (filter (\<lambda>d. Operation d = VirtualDeviceConfigSpecOperationAdd) dc) =
             map (\<lambda>i. - 100 - of_nat i) [0..<length (Networks (base_machineSpec b))]
         \<and> (length (Networks (base_machineSpec b)) \<le> 2147483549 \<longrightarrow>
              map (\<lambda>d. sint (DeviceKey (Device d)))
                  (filter (\<lambda>d. Operation d = VirtualDeviceConfigSpecOperationAdd) dc) =
                map (\<lambda>i. - 100 - int i) [0..<length (Networks (base_machineSpec b))]
              \<and> distinct (map (\<lambda>d. DeviceKey (Device d))
                  (filter (\<lambda>d. Operation d = VirtualDeviceConfigSpecOperationAdd) dc)))"
proof -
  let ?N = "length (Networks (base_machineSpec b))"
  let ?adds = "filter (\<lambda>d. Operation d = VirtualDeviceConfigSpecOperationAdd) dc"
  from deviceChanges_shape [OF built] obtain edits removals adds where
    dc: "dc = edits @ removals @ adds"
    and e: "list_all (\<lambda>d. Operation d = VirtualDeviceConfigSpecOperationEdit) edits"
    and r: "list_all (\<lambda>d. Operation d = VirtualDeviceConfigSpecOperationRemove) removals"
    and rm: "map (\<lambda>d. Some (Device d)) removals =
         map GetVirtualEthernetCard (filter isVirtualEthernetCard (base_devices b))"
    and a: "list_all (\<lambda>d. Operation d = VirtualDeviceConfigSpecOperationAdd) adds"
    and keys: "map (\<lambda>d. DeviceKey (Device d)) adds = map (\<lambda>i. - 100 - of_nat i) [0..<?N]"
    by blast
  have fr: "filter (\<lambda>d. Operation d = VirtualDeviceConfigSpecOperationRemove) dc = removals"
    by (simp add: dc filter_same_operation [OF e] filter_same_operation [OF r]
        filter_same_operation [OF a])
  have fa: "?adds = adds"
    by (simp add: dc filter_same_operation [OF e] filter_same_operation [OF r]
        filter_same_operation [OF a])
  have len: "length adds = ?N"
    using arg_cong [OF keys, of length] by simp
  have submitted: "clones (snd (cloneVirtualMachine pv s cluster machine w)) =
           clones w @
             [\<lparr>CloneSource = base_src b, CloneFolder = base_vmFolder b,
               CloneName = Name machine,
               CloneSpec = (base_spec b)\<lparr>Config_DeviceChange := dc\<rparr>\<rparr>]"
    by (simp add: cloneVirtualMachine_def base built Let_def Eventf_def setTaskRef_keeps
        split: sum.splits)
  have small: "map (\<lambda>d. sint (DeviceKey (Device d))) adds = map (\<lambda>i. - 100 - int i) [0..<?N]
               \<and> distinct (map (\<lambda>d. DeviceKey (Device d)) adds)"
    if bound: "?N \<le> 2147483549"
  proof -
    have "map sint (map (\<lambda>d. DeviceKey (Device d)) adds) =
          map sint (map (\<lambda>i. - 100 - of_nat i :: 32 word) [0..<?N])"
      by (simp only: keys)
    also have "\<dots> = map (\<lambda>i. - 100 - int i) [0..<?N]"
      using bound by (simp add: sint_nic_key)
    finally have ints: "map sint (map (\<lambda>d. DeviceKey (Device d)) adds) =
          map (\<lambda>i. - 100 - int i) [0..<?N]" .
    have "distinct (map (\<lambda>i. - 100 - int i) [0..<?N])"
      by (simp add: distinct_map inj_on_def)
    with ints have "distinct (map sint (map (\<lambda>d. DeviceKey (Device d)) adds))"
      by simp
    then have "distinct (map (\<lambda>d. DeviceKey (Device d)) adds)"
      by (simp only: distinct_map)
    with ints show ?thesis
      by (simp add: comp_def)
  qed
  show ?thesis
    using submitted rm len keys small by (simp add: fr fa)
qed

lemma exampleDeviceChange_built:
  "deviceChanges (exampleSession t v)
     (base_machineSpec (exampleBase [\<lparr>DiskLabel = ''data'', DiskSizeGB = 100\<rparr>]))
     (base_devices (exampleBase [\<lparr>DiskLabel = ''data'', DiskSizeGB = 100\<rparr>]))
   = Inr exampleDeviceChange"
  by (simp add: deviceChanges_def exampleBase_def exampleTemplate_def exampleMachineSpec_def
      exampleSession_def exampleDeviceChange_def diskMap_def GiBToByte_def)

theorem adapters_are_replaced_witness:
  "clones (snd (cloneVirtualMachine (exampleProvisioner idleSession) idleSession exampleCluster
     (exampleMachine '''' [\<lparr>DiskLabel = ''data'', DiskSizeGB = 100\<rparr>])
     (exampleWorld (exampleMachine '''' [\<lparr>DiskLabel = ''data'', DiskSizeGB = 100\<rparr>]))))
   = [\<lparr>CloneSource = ''vm-7'', CloneFolder = ''group-v3'', CloneName = ''node-1'',
        CloneSpec = (base_spec (exampleBase [\<lparr>DiskLabel = ''data'', DiskSizeGB = 100\<rparr>]))
          \<lparr>Config_DeviceChange := exampleDeviceChange\<rparr>\<rparr>]
   \<and> map (\<lambda>d. sint (DeviceKey (Device d)))
        (filter (\<lambda>d. Operation d = VirtualDeviceConfigSpecOperationAdd) exampleDeviceChange)
      = [- 100, - 101]"
  using adapters_are_replaced
    [of "exampleProvisioner idleSession" idleSession exampleCluster
        "exampleMachine '''' [\<lparr>DiskLabel = ''data'', DiskSizeGB = 100\<rparr>]"
        "exampleBase [\<lparr>DiskLabel = ''data'', DiskSizeGB = 100\<rparr>]"
        exampleDeviceChange
        "exampleWorld (exampleMachine '''' [\<lparr>DiskLabel = ''data'', DiskSizeGB = 100\<rparr>])"]
  unfolding idleSession_def
  by (simp add: exampleBase_built exampleDeviceChange_built)
     (simp add: exampleBase_def exampleMachineSpec_def exampleWorld_def exampleMachine_def
        upt_conv_Cons)

subsection \<open>The order of checks in Create\<close>

lemma example_clone_submits:
  "length (clones (snd (cloneVirtualMachine (exampleProvisioner (exampleSession t v))
       (exampleSession t v) exampleCluster (exampleMachine r []) w)))
   = Suc (length (clones w))"
  by (simp add: cloneVirtualMachine_def exampleBase_built Let_def Eventf_def setTaskRef_keeps
      split: sum.splits)
     (simp add: deviceChanges_def exampleBase_def exampleTemplate_def exampleMachineSpec_def
        exampleSession_def diskMap_def)

text \<open>
  C1: with the session established, Create checks in this order. With a stored Task
  Reference the call is the task tracker's call on that reference and nothing else.
  Without one, the platform is asked for a VM whose instance UUID is the machine's UID.
  When there is none, the call is the clone of the template. When there is one, then, with
  a recorder and a client in place and the update accepted, the ``Created'' event is
  emitted and the VM reference recorded, and the call still is the clone of the template,
  run on the world so changed.
\<close>

theorem Create_order_of_checks:
  assumes session: "sessionFromProviderConfig pv c machine = Inr s"
    and user: "UserSession s = None"
  shows "(GetActiveTasks machine \<noteq> '''' \<longrightarrow>
            Create pv (Some c) machine w =
              verifyAndUpdateTask pv s machine (GetActiveTasks machine) w)
       \<and> (GetActiveTasks machine = '''' \<and> FindByUuid s None (UID machine) = Inr None \<longrightarrow>
            Create pv (Some c) machine w = cloneVirtualMachine pv s c machine w)
       \<and> (GetActiveTasks machine = ''''
            \<and> FindByUuid s None (UID machine) = Inr (Some vmRef) \<and> vmRef \<noteq> ''''
            \<and> eventRecorder pv \<and> ProviderSpec machine = Inr cfg
            \<and> clusterV1alpha1 pv = Some client
            \<and> Update client
                 (machine\<lparr>ProviderSpec := Inr (cfg\<lparr>MachineRef := vmRef,
                     Kind := ''VsphereMachineProviderConfig'',
                     APIVersion := SchemeGroupVersion pv\<rparr>)\<rparr>) = None \<longrightarrow>
            Create pv (Some c) machine w =
              cloneVirtualMachine pv s c machine
                (w\<lparr>events := events w @
                      [\<lparr>eventtype = ''Normal'', reason = ''Created'',
                        message = ''Created Machine '' @ Name machine @ ''('' @ vmRef @ '')''\<rparr>],
                    stored := machine\<lparr>ProviderSpec := Inr (cfg\<lparr>MachineRef := vmRef,
                     Kind := ''VsphereMachineProviderConfig'',
                     APIVersion := SchemeGroupVersion pv\<rparr>)\<rparr>\<rparr>))"
proof (intro conjI impI)
  assume "GetActiveTasks machine \<noteq> ''''"
  then show "Create pv (Some c) machine w =
               verifyAndUpdateTask pv s machine (GetActiveTasks machine) w"
    by (simp add: Create_def session user)
next
  assume "GetActiveTasks machine = '''' \<and> FindByUuid s None (UID machine) = Inr None"
  then show "Create pv (Some c) machine w = cloneVirtualMachine pv s c machine w"
    by (simp add: Create_def session user findVMByInstanceUUID_def)
next
  assume found: "GetActiveTasks machine = ''''
            \<and> FindByUuid s None (UID machine) = Inr (Some vmRef) \<and> vmRef \<noteq> ''''
            \<and> eventRecorder pv \<and> ProviderSpec machine = Inr cfg
            \<and> clusterV1alpha1 pv = Some client
            \<and> Update client
                 (machine\<lparr>ProviderSpec := Inr (cfg\<lparr>MachineRef := vmRef,
                     Kind := ''VsphereMachineProviderConfig'',
                     APIVersion := SchemeGroupVersion pv\<rparr>)\<rparr>) = None"
  then show "Create pv (Some c) machine w =
              cloneVirtualMachine pv s c machine
                (w\<lparr>events := events w @
                      [\<lparr>eventtype = ''Normal'', reason = ''Created'',
                        message = ''Created Machine '' @ Name machine @ ''('' @ vmRef @ '')''\<rparr>],
                    stored := machine\<lparr>ProviderSpec := Inr (cfg\<lparr>MachineRef := vmRef,
                     Kind := ''VsphereMachineProviderConfig'',
                     APIVersion := SchemeGroupVersion pv\<rparr>)\<rparr>\<rparr>)"
    by (simp add: Create_def session user findVMByInstanceUUID_def updateVMReference_def
        GetMachineProviderSpec_def Eventf_def EventTypeNormal_def Let_def)
qed

theorem Create_order_of_checks_witness:
  "Create (exampleProvisioner successSession) (Some exampleCluster)
       (exampleMachine ''task-42'' []) (exampleWorld (exampleMachine ''task-42'' []))
     = verifyAndUpdateTask (exampleProvisioner successSession) successSession
         (exampleMachine ''task-42'' []) ''task-42'' (exampleWorld (exampleMachine ''task-42'' []))
   \<and> Create (exampleProvisioner idleSession) (Some exampleCluster)
       (exampleMachine '''' []) (exampleWorld (exampleMachine '''' []))
     = cloneVirtualMachine (exampleProvisioner idleSession) idleSession exampleCluster
         (exampleMachine '''' []) (exampleWorld (exampleMachine '''' []))
   \<and> Create (exampleProvisioner successSession) (Some exampleCluster)
       (exampleMachine '''' []) (exampleWorld (exampleMachine '''' []))
     = cloneVirtualMachine (exampleProvisioner successSession) successSession exampleCluster
         (exampleMachine '''' [])
         \<lparr>stored = (exampleMachine '''' [])
            \<lparr>ProviderSpec := Inr \<lparr>Kind = ''VsphereMachineProviderConfig'',
               APIVersion = ''vsphereproviderconfig/v1alpha1'', MachineRef = ''vm-101'',
               MachineSpec = exampleMachineSpec []\<rparr>\<rparr>,
          events = [\<lparr>eventtype = ''Normal'', reason = ''Created'',
                     message = ''Created Machine node-1(vm-101)''\<rparr>],
          clones = []\<rparr>
   \<and> length (clones (snd (Create (exampleProvisioner successSession) (Some exampleCluster)
       (exampleMachine '''' []) (exampleWorld (exampleMachine '''' []))))) = 1"
proof -
  have task: "Create (exampleProvisioner successSession) (Some exampleCluster)
       (exampleMachine ''task-42'' []) (exampleWorld (exampleMachine ''task-42'' []))
     = verifyAndUpdateTask (exampleProvisioner successSession) successSession
         (exampleMachine ''task-42'' []) ''task-42'' (exampleWorld (exampleMachine ''task-42'' []))"
    using Create_order_of_checks
      [of "exampleProvisioner successSession" exampleCluster "exampleMachine ''task-42'' []"
          successSession]
    by (simp add: exampleProvisioner_def successSession_def exampleSession_def
        exampleMachine_def GetActiveTasks_def GetMachineProviderStatus_def)
  have none: "Create (exampleProvisioner idleSession) (Some exampleCluster)
       (exampleMachine '''' []) (exampleWorld (exampleMachine '''' []))
     = cloneVirtualMachine (exampleProvisioner idleSession) idleSession exampleCluster
         (exampleMachine '''' []) (exampleWorld (exampleMachine '''' []))"
    using Create_order_of_checks
      [of "exampleProvisioner idleSession" exampleCluster "exampleMachine '''' []" idleSession]
    by (simp add: exampleProvisioner_def idleSession_def exampleSession_def
        exampleMachine_def GetActiveTasks_def GetMachineProviderStatus_def)
  have found: "Create (exampleProvisioner successSession) (Some exampleCluster)
       (exampleMachine '''' []) (exampleWorld (exampleMachine '''' []))
     = cloneVirtualMachine (exampleProvisioner successSession) successSession exampleCluster
         (exampleMachine '''' [])
         \<lparr>stored = (exampleMachine '''' [])
            \<lparr>ProviderSpec := Inr \<lparr>Kind = ''VsphereMachineProviderConfig'',
               APIVersion = ''vsphereproviderconfig/v1alpha1'', MachineRef = ''vm-101'',
               MachineSpec = exampleMachineSpec []\<rparr>\<rparr>,
          events = [\<lparr>eventtype = ''Normal'', reason = ''Created'',
                     message = ''Created Machine node-1(vm-101)''\<rparr>],
          clones = []\<rparr>"
    using Create_order_of_checks
      [of "exampleProvisioner successSession" exampleCluster "exampleMachine '''' []"
          successSession "exampleWorld (exampleMachine '''' [])" "''vm-101''"
          "\<lparr>Kind = '''', APIVersion = '''', MachineRef = '''',
            MachineSpec = exampleMachineSpec []\<rparr>"
          "\<lparr>Update = (\<lambda>m. None), UpdateStatus = (\<lambda>m. None)\<rparr>"]
    by (simp add: exampleProvisioner_def successSession_def exampleSession_def
        exampleMachine_def exampleWorld_def GetActiveTasks_def GetMachineProviderStatus_def)
  have "length (clones (snd (Create (exampleProvisioner successSession) (Some exampleCluster)
       (exampleMachine '''' []) (exampleWorld (exampleMachine '''' []))))) = 1"
    unfolding found unfolding successSession_def by (simp add: example_clone_submits)
  with task none found show ?thesis
    by (simp only:) 
qed

end
